theory Spec2Isabelle
  imports Main "HOL-Library.Sublist"
begin

section \<open>Go strings\<close>

text \<open>
  A Go string is a sequence of bytes, so it is modelled as \<open>string\<close> (\<open>char list\<close>, one
  \<open>char\<close> per byte). The functions of package \<open>strings\<close> that the bot calls are written out
  here for the arguments the bot passes: every separator and cutset in the source is a single
  ASCII byte (newline, \<open>|\<close>, \<open>_\<close>, backtick).
\<close>

subsection \<open>strings.SplitN and strings.Split\<close>

text \<open>
  \<open>genSplit\<close> cuts the string at the first separator, stores the part before it and goes on
  with the part after it, until \<open>n - 1\<close> cuts were made or no separator is left; the rest is
  the last element. \<open>takeWhile (\<lambda>c. c \<noteq> sep) s\<close> is \<open>s[:m]\<close> for \<open>m = Index(s, sep)\<close> and
  \<open>tl (dropWhile (\<lambda>c. c \<noteq> sep) s)\<close> is \<open>s[m+1:]\<close>.
\<close>

fun SplitN :: "string \<Rightarrow> char \<Rightarrow> nat \<Rightarrow> string list" where
  "SplitN s sep 0 = []"
| "SplitN s sep (Suc 0) = [s]"
| "SplitN s sep (Suc (Suc n)) =
     (if sep \<in> set s
      then takeWhile (\<lambda>c. c \<noteq> sep) s # SplitN (tl (dropWhile (\<lambda>c. c \<noteq> sep) s)) sep (Suc n)
      else [s])"

text \<open>\<open>strings.Split(s, sep)\<close> is \<open>genSplit\<close> with \<open>n = Count(s, sep) + 1\<close>.\<close>

definition Split :: "string \<Rightarrow> char \<Rightarrow> string list" where
  "Split s sep = SplitN s sep (count_list s sep + 1)"

subsection \<open>strings.TrimSpace\<close>

text \<open>
  \<open>TrimSpace\<close> removes leading and trailing white space as \<open>unicode.IsSpace\<close> defines it.
  On bytes, a white-space rune is one of the UTF-8 encodings below: the six ASCII ones, and
  U+0085, U+00A0, U+1680, U+2000 to U+200A, U+2028, U+2029, U+202F, U+205F and U+3000.
  A byte sequence that is not valid UTF-8 decodes to U+FFFD, which is no white space.
\<close>

definition White_Space :: "string list" where
  "White_Space =
    [[CHR 0x09], [CHR 0x0A], [CHR 0x0B], [CHR 0x0C], [CHR 0x0D], [CHR 0x20],
     [CHR 0xC2, CHR 0x85], [CHR 0xC2, CHR 0xA0],
     [CHR 0xE1, CHR 0x9A, CHR 0x80],
     [CHR 0xE2, CHR 0x80, CHR 0x80], [CHR 0xE2, CHR 0x80, CHR 0x81],
     [CHR 0xE2, CHR 0x80, CHR 0x82], [CHR 0xE2, CHR 0x80, CHR 0x83],
     [CHR 0xE2, CHR 0x80, CHR 0x84], [CHR 0xE2, CHR 0x80, CHR 0x85],
     [CHR 0xE2, CHR 0x80, CHR 0x86], [CHR 0xE2, CHR 0x80, CHR 0x87],
     [CHR 0xE2, CHR 0x80, CHR 0x88], [CHR 0xE2, CHR 0x80, CHR 0x89],
     [CHR 0xE2, CHR 0x80, CHR 0x8A],
     [CHR 0xE2, CHR 0x80, CHR 0xA8], [CHR 0xE2, CHR 0x80, CHR 0xA9],
     [CHR 0xE2, CHR 0x80, CHR 0xAF],
     [CHR 0xE2, CHR 0x81, CHR 0x9F],
     [CHR 0xE3, CHR 0x80, CHR 0x80]]"

text \<open>The width in bytes of the white-space rune a string starts (ends) with; 0 if none.\<close>

definition leading_space :: "string \<Rightarrow> nat" where
  "leading_space s =
     (case find (\<lambda>w. take (length w) s = w) White_Space of None \<Rightarrow> 0 | Some w \<Rightarrow> length w)"

definition trailing_space :: "string \<Rightarrow> nat" where
  "trailing_space s =
     (case find (\<lambda>w. drop (length s - length w) s = w) White_Space of
        None \<Rightarrow> 0 | Some w \<Rightarrow> length w)"

function TrimLeftSpace :: "string \<Rightarrow> string" where
  "TrimLeftSpace s =
     (if leading_space s = 0 then s else TrimLeftSpace (drop (leading_space s) s))"
  by pat_completeness auto

termination
proof (relation "measure length")
  fix s :: string
  assume "leading_space s \<noteq> 0"
  then obtain w where w: "find (\<lambda>w. take (length w) s = w) White_Space = Some w"
    and n: "leading_space s = length w"
    by (auto simp: leading_space_def split: option.splits)
  from w have "w \<in> set White_Space" and t: "take (length w) s = w"
    by (auto simp: find_Some_iff)
  then have "w \<noteq> []" by (auto simp: White_Space_def)
  with t have "s \<noteq> []" by auto
  with \<open>w \<noteq> []\<close> n show "(drop (leading_space s) s, s) \<in> measure length" by simp
qed simp

function TrimRightSpace :: "string \<Rightarrow> string" where
  "TrimRightSpace s =
     (if trailing_space s = 0 then s
      else TrimRightSpace (take (length s - trailing_space s) s))"
  by pat_completeness auto
termination
proof (relation "measure length")
  fix s :: string
  assume "trailing_space s \<noteq> 0"
  then obtain w where w: "find (\<lambda>w. drop (length s - length w) s = w) White_Space = Some w"
    and n: "trailing_space s = length w"
    by (auto simp: trailing_space_def split: option.splits)
  from w have "w \<in> set White_Space" and t: "drop (length s - length w) s = w"
    by (auto simp: find_Some_iff)
  then have "w \<noteq> []" by (auto simp: White_Space_def)
  with t have "s \<noteq> []" by auto
  with \<open>w \<noteq> []\<close> n show "(take (length s - trailing_space s) s, s) \<in> measure length"
    by simp
qed simp

definition TrimSpace :: "string \<Rightarrow> string" where
  "TrimSpace s = TrimRightSpace (TrimLeftSpace s)"

subsection \<open>strings.Trim with a one-byte cutset, strings.HasPrefix\<close>

text \<open>
  For a cutset of one ASCII byte \<open>strings.Trim\<close> is
  \<open>trimLeftByte(trimRightByte(s, c), c)\<close>: it drops every leading and trailing \<open>c\<close>.
\<close>

definition trimRightByte :: "string \<Rightarrow> char \<Rightarrow> string" where
  "trimRightByte s c = rev (dropWhile (\<lambda>x. x = c) (rev s))"

definition trimLeftByte :: "string \<Rightarrow> char \<Rightarrow> string" where
  "trimLeftByte s c = dropWhile (\<lambda>x. x = c) s"

definition Trim :: "string \<Rightarrow> char \<Rightarrow> string" where
  "Trim s c = trimLeftByte (trimRightByte s c) c"

definition HasPrefix :: "string \<Rightarrow> string \<Rightarrow> bool" where
  "HasPrefix s p \<longleftrightarrow> length p \<le> length s \<and> take (length p) s = p"

subsection \<open>strconv\<close>

text \<open>
  \<open>strconv.FormatInt(i, 10)\<close> and the verb \<open>%d\<close>: the decimal digits, with a minus sign
  for a negative number.
\<close>

function FormatUint :: "nat \<Rightarrow> string" where
  "FormatUint n =
     (if n < 10 then [char_of (48 + n)]
      else FormatUint (n div 10) @ [char_of (48 + n mod 10)])"
  by pat_completeness auto
termination
  by (relation "measure id") auto

definition FormatInt :: "int \<Rightarrow> string" where
  "FormatInt i = (if i < 0 then CHR ''-'' # FormatUint (nat (- i)) else FormatUint (nat i))"

text \<open>
  \<open>strconv.ParseInt(s, 10, 64)\<close> returns a value and an error. The callers in this program
  often drop the error and use the value, so both are modelled: a syntax error comes with the
  value 0, a range error with the nearest bound of int64. \<open>ParseUint\<close> reads the digits left
  to right and stops at the first byte that is no digit (syntax error) or at the first digit
  that takes the value past \<open>2^64 - 1\<close> (range error), whichever comes first.
\<close>

datatype NumError = ErrSyntax | ErrRange

definition isDigit :: "char \<Rightarrow> bool" where
  "isDigit c \<longleftrightarrow> (48::nat) \<le> of_char c \<and> of_char c \<le> (57::nat)"

fun ParseUint_loop :: "nat \<Rightarrow> string \<Rightarrow> nat \<times> NumError option" where
  "ParseUint_loop n [] = (n, None)"
| "ParseUint_loop n (c # cs) =
     (if \<not> isDigit c then (0, Some ErrSyntax)
      else if n \<ge> (2 ^ 64 - 1) div 10 + 1 then (2 ^ 64 - 1, Some ErrRange)
      else if n * 10 + (of_char c - 48) > 2 ^ 64 - 1 then (2 ^ 64 - 1, Some ErrRange)
      else ParseUint_loop (n * 10 + (of_char c - 48)) cs)"

definition ParseUint :: "string \<Rightarrow> nat \<times> NumError option" where
  "ParseUint s = (if s = [] then (0, Some ErrSyntax) else ParseUint_loop 0 s)"

definition ParseInt :: "string \<Rightarrow> int \<times> NumError option" where
  "ParseInt s =
     (if s = [] then (0, Some ErrSyntax)
      else
        let neg = (hd s = CHR ''-'');
            s1 = (if hd s = CHR ''+'' \<or> hd s = CHR ''-'' then tl s else s);
            (un, err) = ParseUint s1
        in if err = Some ErrSyntax then (0, err)
           else if \<not> neg \<and> un \<ge> 2 ^ 63 then (2 ^ 63 - 1, Some ErrRange)
           else if neg \<and> un > 2 ^ 63 then (- (2 ^ 63), Some ErrRange)
           else (if neg then - int un else int un, None))"

text \<open>
  \<open>strconv.Atoi\<close> is \<open>ParseInt(s, 10, 0)\<close> on a 64-bit platform (its fast path for short
  strings returns the same values).
\<close>

definition Atoi :: "string \<Rightarrow> int \<times> NumError option" where
  "Atoi s = ParseInt s"

section \<open>Inline keyboards and the button-line parser\<close>

text \<open>
  Texts the bot sends. The literals of the source are Chinese, so a text is given by where
  its literal stands in the source: \<open>Lit f n\<close> is the string literal at line \<open>n\<close> of
  file \<open>f\<close>, and \<open>Fmt f n args\<close> is the format string (or concatenation) at that line
  with the arguments formatted into it (\<open>N\<close> for \<open>%d\<close>, \<open>S\<close> for \<open>%s\<close> or a
  concatenated string, \<open>L\<close> for a literal passed as argument). \<open>Str\<close> is a string taken
  as it is: text typed by a user or an administrator, or an ASCII literal. Each literal has
  a name below, after what it says. \<open>src/unnamed/part_000\<close> is the main package
  (\<open>Main_go\<close>) and \<open>src/unnamed/part_001\<close> is package welcome (\<open>Welcome_go\<close>).

  Two texts are built by code: the builder menu (broadcasts.go 280-309), fixed by the
  draft's text, by the media type when a media is set and by whether there are button rows;
  and the blocked list (main 269-296), fixed by the page, the number of pages and the
  numbered display names.
\<close>

datatype src = Main_go | Welcome_go | Broadcasts_go

datatype arg = N int | S string | L src nat

datatype phrase =
    Str string
  | Lit src nat
  | Fmt src nat "arg list"
  | Builder_menu string "string option" bool
  | Blocked_list int int "(int \<times> string) list"

abbreviation Label_skip_media :: phrase where "Label_skip_media \<equiv> Lit Broadcasts_go 259"
abbreviation Label_skip_buttons :: phrase where "Label_skip_buttons \<equiv> Lit Broadcasts_go 266"
abbreviation Label_cancel_broadcast :: phrase where "Label_cancel_broadcast \<equiv> Lit Broadcasts_go 273"
abbreviation Label_edit_text :: phrase where "Label_edit_text \<equiv> Lit Broadcasts_go 332"
abbreviation Label_edit_media :: phrase where "Label_edit_media \<equiv> Lit Broadcasts_go 333"
abbreviation Label_edit_buttons :: phrase where "Label_edit_buttons \<equiv> Lit Broadcasts_go 336"
abbreviation Label_preview :: phrase where "Label_preview \<equiv> Lit Broadcasts_go 342"
abbreviation Label_send :: phrase where "Label_send \<equiv> Lit Broadcasts_go 347"
abbreviation Label_cancel :: phrase where "Label_cancel \<equiv> Lit Broadcasts_go 353"
abbreviation Prompt_text :: phrase where "Prompt_text \<equiv> Lit Broadcasts_go 55"
abbreviation Prompt_media :: phrase where "Prompt_media \<equiv> Lit Broadcasts_go 89"
abbreviation Toast_media_skipped :: phrase where "Toast_media_skipped \<equiv> Lit Broadcasts_go 102"
abbreviation Prompt_buttons_media_skipped :: phrase where "Prompt_buttons_media_skipped \<equiv> Lit Broadcasts_go 104"
abbreviation Prompt_buttons :: phrase where "Prompt_buttons \<equiv> Lit Broadcasts_go 115"
abbreviation Toast_buttons_skipped :: phrase where "Toast_buttons_skipped \<equiv> Lit Broadcasts_go 129"
abbreviation Broadcast_cancelled :: phrase where "Broadcast_cancelled \<equiv> Lit Broadcasts_go 141"
abbreviation Invalid_text_input :: phrase where "Invalid_text_input \<equiv> Lit Broadcasts_go 172"
abbreviation Prompt_media_text_set :: phrase where "Prompt_media_text_set \<equiv> Lit Broadcasts_go 182"
abbreviation Invalid_media_input :: phrase where "Invalid_media_input \<equiv> Lit Broadcasts_go 201"
abbreviation Prompt_buttons_media_set :: phrase where "Prompt_buttons_media_set \<equiv> Lit Broadcasts_go 212"
abbreviation Preview_empty :: phrase where "Preview_empty \<equiv> Lit Broadcasts_go 363"
abbreviation Preview_header :: phrase where "Preview_header \<equiv> Lit Broadcasts_go 369"
abbreviation Send_empty :: phrase where "Send_empty \<equiv> Lit Broadcasts_go 378"
abbreviation User_list_failed :: phrase where "User_list_failed \<equiv> Lit Broadcasts_go 387"
abbreviation Default_welcome :: phrase where "Default_welcome \<equiv> Lit Welcome_go 44"
abbreviation Save_welcome_failed :: phrase where "Save_welcome_failed \<equiv> Lit Welcome_go 114"
abbreviation Welcome_updated :: phrase where "Welcome_updated \<equiv> Lit Welcome_go 119"
abbreviation Save_buttons_failed :: phrase where "Save_buttons_failed \<equiv> Lit Welcome_go 128"
abbreviation Welcome_buttons_updated :: phrase where "Welcome_buttons_updated \<equiv> Lit Welcome_go 133"
abbreviation Replied :: phrase where "Replied \<equiv> Lit Main_go 200"
abbreviation Reply_unsupported :: phrase where "Reply_unsupported \<equiv> Lit Main_go 204"
abbreviation Reply_no_user_id :: phrase where "Reply_no_user_id \<equiv> Lit Main_go 208"
abbreviation List_blocked_failed :: phrase where "List_blocked_failed \<equiv> Lit Main_go 246"
abbreviation No_blocked_users :: phrase where "No_blocked_users \<equiv> Lit Main_go 252"
abbreviation Label_prev_page :: phrase where "Label_prev_page \<equiv> Lit Main_go 316"
abbreviation Label_next_page :: phrase where "Label_next_page \<equiv> Lit Main_go 319"
abbreviation Stats_failed :: phrase where "Stats_failed \<equiv> Lit Main_go 339"
abbreviation Toast_unblocked :: phrase where "Toast_unblocked \<equiv> Lit Main_go 389"
abbreviation Toast_blocked :: phrase where "Toast_blocked \<equiv> Lit Main_go 426"
abbreviation Blocked_notice :: phrase where "Blocked_notice \<equiv> Lit Main_go 456"
abbreviation Label_unblock :: phrase where "Label_unblock \<equiv> Lit Main_go 474"
abbreviation Label_block :: phrase where "Label_block \<equiv> Lit Main_go 476"
abbreviation Label_dialog :: phrase where "Label_dialog \<equiv> Lit Main_go 478"
abbreviation Received_ack :: phrase where "Received_ack \<equiv> Lit Main_go 527"
abbreviation Unroutable :: phrase where "Unroutable \<equiv> Lit Main_go 530"
abbreviation Desc_start_admin :: phrase where "Desc_start_admin \<equiv> Lit Main_go 542"
abbreviation Desc_setwelcome :: phrase where "Desc_setwelcome \<equiv> Lit Main_go 543"
abbreviation Desc_setbuttons :: phrase where "Desc_setbuttons \<equiv> Lit Main_go 544"
abbreviation Desc_broadcast :: phrase where "Desc_broadcast \<equiv> Lit Main_go 545"
abbreviation Desc_listblocked :: phrase where "Desc_listblocked \<equiv> Lit Main_go 546"
abbreviation Desc_stats :: phrase where "Desc_stats \<equiv> Lit Main_go 547"
abbreviation Desc_start_user :: phrase where "Desc_start_user \<equiv> Lit Main_go 551"

abbreviation Line_format_error :: "nat \<Rightarrow> string \<Rightarrow> phrase" where
  "Line_format_error n line \<equiv> Fmt Broadcasts_go 231 [N (int n), S line]"
abbreviation Line_url_invalid :: "nat \<Rightarrow> string \<Rightarrow> phrase" where
  "Line_url_invalid n url \<equiv> Fmt Broadcasts_go 240 [N (int n), S url]"
abbreviation Broadcast_done :: "nat \<Rightarrow> phrase" where
  "Broadcast_done count \<equiv> Fmt Broadcasts_go 402 [N (int count)]"
abbreviation Broadcast_marked :: "string \<Rightarrow> phrase" where
  "Broadcast_marked t \<equiv> Fmt Broadcasts_go 411 [S t]"
abbreviation Prompt_welcome :: "arg \<Rightarrow> phrase" where
  "Prompt_welcome current \<equiv> Fmt Welcome_go 69 [current]"
abbreviation Prompt_welcome_buttons :: "arg \<Rightarrow> phrase" where
  "Prompt_welcome_buttons current \<equiv> Fmt Welcome_go 84 [current]"
abbreviation Reply_failed :: "int \<Rightarrow> phrase" where
  "Reply_failed user \<equiv> Fmt Main_go 197 [N user]"
abbreviation Label_unblock_id :: "string \<Rightarrow> phrase" where
  "Label_unblock_id idStr \<equiv> Fmt Main_go 302 [S idStr]"
abbreviation Label_unblock_username :: "string \<Rightarrow> string \<Rightarrow> phrase" where
  "Label_unblock_username username idStr \<equiv> Fmt Main_go 304 [S username, S idStr]"
abbreviation Label_unblock_name :: "string \<Rightarrow> string \<Rightarrow> string \<Rightarrow> phrase" where
  "Label_unblock_name firstName lastName idStr \<equiv> Fmt Main_go 306 [S firstName, S lastName, S idStr]"
abbreviation Stats :: "int \<Rightarrow> int \<Rightarrow> int \<Rightarrow> phrase" where
  "Stats totalUsers activeUsers blockedCount \<equiv>
     Fmt Main_go 352 [N totalUsers, N activeUsers, N blockedCount]"
abbreviation Forward_caption :: "string \<Rightarrow> int \<Rightarrow> phrase" where
  "Forward_caption name user \<equiv> Fmt Main_go 469 [S name, N user, N user]"
abbreviation Forward_text :: "string \<Rightarrow> int \<Rightarrow> string \<Rightarrow> phrase" where
  "Forward_text name user t \<equiv> Fmt Main_go 484 [S name, N user, N user, S t]"
abbreviation Forward_unsupported :: "string \<Rightarrow> int \<Rightarrow> phrase" where
  "Forward_unsupported name user \<equiv> Fmt Main_go 514 [S name, N user, N user]"

text \<open>
  The placeholders shown for the current welcome text and buttons (welcome 65, 67, 80, 82).
\<close>

abbreviation Welcome_unreadable :: arg where "Welcome_unreadable \<equiv> L Welcome_go 65"
abbreviation Welcome_unset :: arg where "Welcome_unset \<equiv> L Welcome_go 67"
abbreviation Buttons_unreadable :: arg where "Buttons_unreadable \<equiv> L Welcome_go 80"
abbreviation Buttons_unset :: arg where "Buttons_unset \<equiv> L Welcome_go 82"

text \<open>
  \<open>tgbotapi.InlineKeyboardButton\<close>: a label, and either a URL
  (\<open>NewInlineKeyboardButtonURL\<close>) or callback data (\<open>NewInlineKeyboardButtonData\<close>).
\<close>

datatype InlineKeyboardButton =
    NewInlineKeyboardButtonURL phrase string
  | NewInlineKeyboardButtonData phrase string

type_synonym InlineKeyboardMarkup = "InlineKeyboardButton list list"

text \<open>
  \<open>ParseButtons\<close> is defined twice in the source, in package \<open>welcome\<close> and in package
  \<open>broadcast\<close>, with the same body: a loop over the lines that collects the buttons, then a
  loop over the buttons with step 2 that builds the rows.
\<close>

fun ParseButtons_lines :: "string list \<Rightarrow> InlineKeyboardButton list \<Rightarrow> InlineKeyboardButton list"
where
  "ParseButtons_lines [] buttons = buttons"
| "ParseButtons_lines (line # lines) buttons =
     (let line = TrimSpace line in
      if line = [] then ParseButtons_lines lines buttons
      else
        let parts = SplitN line CHR ''|'' 2 in
        if length parts = 2
        then
          let text = TrimSpace (parts ! 0);
              url = TrimSpace (parts ! 1);
              url = Trim url (CHR 0x60)
          in ParseButtons_lines lines (buttons @ [NewInlineKeyboardButtonURL (Str text) url])
        else ParseButtons_lines lines buttons)"

function ParseButtons_rows ::
  "InlineKeyboardButton list \<Rightarrow> nat \<Rightarrow> InlineKeyboardMarkup \<Rightarrow> InlineKeyboardMarkup"
where
  "ParseButtons_rows buttons i rows =
     (if i < length buttons
      then
        (if i + 1 < length buttons
         then ParseButtons_rows buttons (i + 2) (rows @ [[buttons ! i, buttons ! (i + 1)]])
         else ParseButtons_rows buttons (i + 2) (rows @ [[buttons ! i]]))
      else rows)"
  by pat_completeness auto
termination
  by (relation "measure (\<lambda>(buttons, i, rows). length buttons - i)") auto

definition welcome_ParseButtons :: "string \<Rightarrow> InlineKeyboardMarkup" where
  "welcome_ParseButtons data =
     (let lines = Split data (CHR 0x0A);
          buttons = ParseButtons_lines lines []
      in ParseButtons_rows buttons 0 [])"

definition broadcast_ParseButtons :: "string \<Rightarrow> InlineKeyboardMarkup" where
  "broadcast_ParseButtons data =
     (let lines = Split data (CHR 0x0A);
          buttons = ParseButtons_lines lines []
      in ParseButtons_rows buttons 0 [])"

section \<open>The bot's state, the store and the transport\<close>

subsection \<open>Telegram types\<close>

text \<open>
  What the bot reads of an update. \<open>IsCommand\<close> and \<open>Command\<close> are methods of the
  Telegram library (not part of this repository), so their results are fields of the
  message. A message of \<open>update.Message\<close> carries its sender; the case of a missing
  sender is the update \<open>Update_Message_no_From\<close> below.
\<close>

record User =
  ID :: int
  FirstName :: string
  LastName :: string
  UserName :: string

record ReplyTo =
  reply_Text :: string
  reply_Caption :: string

record tg_Message =
  MessageID :: int
  From :: User
  Chat :: int
  MsgText :: string
  Caption :: string
  Photo :: "string list"
  Video :: "string option"
  Sticker :: "string option"
  Document :: "string option"
  ReplyToMessage :: "ReplyTo option"
  IsCommand :: bool
  Command :: string

record CallbackQuery =
  query_ID :: string
  Data :: string
  query_Chat :: int
  query_MessageID :: int

datatype Update =
    Update_Message tg_Message
  | Update_Message_no_From
  | Update_CallbackQuery CallbackQuery
  | Update_other

text \<open>The requests the bot makes to the Telegram API (\<open>tgbotapi.Chattable\<close>).\<close>

datatype request =
    NewMessage int phrase string "InlineKeyboardMarkup option"
      \<comment> \<open>chat, text, parse mode, reply markup\<close>
  | NewPhoto int string phrase string "InlineKeyboardMarkup option"
      \<comment> \<open>chat, file ID, caption, parse mode, reply markup\<close>
  | NewVideo int string phrase string "InlineKeyboardMarkup option"
  | NewDocument int string phrase string "InlineKeyboardMarkup option"
  | NewSticker int string
  | NewDeleteMessage int int
  | NewCallback string phrase
  | NewSetMyCommands int "(string \<times> phrase) list"

subsection \<open>The broadcast draft\<close>

record Message =
  Text :: string
  MediaID :: string
  Type :: string
  Buttons :: InlineKeyboardMarkup

definition zero_Message :: Message where
  "zero_Message = \<lparr>Text = [], MediaID = [], Type = [], Buttons = []\<rparr>"

subsection \<open>The state\<close>

text \<open>
  \<open>BotInstance\<close>, \<open>broadcast.Manager\<close> and \<open>welcome.Manager\<close> hold the same
  \<open>adminStates\<close> map (a Go map is a reference), the same API client and the same store
  client, so one record holds the state of all three.

  The store and the Telegram API are outside the program. What they hold and what they were
  asked is part of the state: the Redis sets, strings and hashes, and the list of requests
  made so far. A Redis set is kept as the list that \<open>SMEMBERS\<close> returns. How they
  answer is fixed by two functions the program cannot change: \<open>redis_error n\<close> says
  whether the \<open>n\<close>-th store command fails, and \<open>api_result n\<close> is the answer to the
  \<open>n\<close>-th request, \<open>None\<close> for an error and the ID of the message that was sent
  otherwise. A goroutine started by \<open>executeBroadcast\<close> is recorded in \<open>goroutines\<close>
  with the values it captured; \<open>fanout\<close> below is its body.
\<close>

datatype error = Redis_error | Telegram_error | Nil_dereference

record BotInstance =
  adminIDs :: "int set"
  adminStates :: "int \<rightharpoonup> int"
  forwardToAdminID :: int
  Broadcasts :: "int \<rightharpoonup> Message"
  BroadcastPromptMessageIDs :: "int \<rightharpoonup> int"
  redis_sets :: "string \<Rightarrow> string list"
  redis_strings :: "string \<rightharpoonup> string"
  redis_hashes :: "string \<Rightarrow> (string \<rightharpoonup> string)"
  redis_calls :: nat
  redis_error :: "nat \<Rightarrow> bool"
  requests :: "request list"
  api_result :: "nat \<Rightarrow> int option"
  goroutines :: "(int \<times> Message \<times> string list) list"

text \<open>State constants (main.go 21, broadcasts.go 17-19, welcome.go 15-16).\<close>

definition StateNone :: int where "StateNone = 0"
definition UsersPerPage :: int where "UsersPerPage = 10"
definition StateBroadcastAwaitText :: int where "StateBroadcastAwaitText = 10"
definition StateBroadcastAwaitMedia :: int where "StateBroadcastAwaitMedia = 11"
definition StateBroadcastAwaitButtons :: int where "StateBroadcastAwaitButtons = 12"
definition StateAwaitingWelcomeMessage :: int where "StateAwaitingWelcomeMessage = 20"
definition StateAwaitingWelcomeButtons :: int where "StateAwaitingWelcomeButtons = 21"

subsection \<open>The transport\<close>

text \<open>
  \<open>API.Send\<close> and \<open>API.Request\<close>: the request is appended to the log and the answer is
  read from \<open>api_result\<close>.
\<close>

definition Send :: "BotInstance \<Rightarrow> request \<Rightarrow> int option \<times> BotInstance" where
  "Send b r = (api_result b (length (requests b)), b\<lparr>requests := requests b @ [r]\<rparr>)"

definition Request :: "BotInstance \<Rightarrow> request \<Rightarrow> int option \<times> BotInstance" where
  "Request b r = Send b r"

subsection \<open>internal/cache/redis.go\<close>

text \<open>A store command: it fails when \<open>redis_error\<close> says so, and counts as one call.\<close>

definition redis_cmd ::
  "BotInstance \<Rightarrow> (BotInstance \<Rightarrow> 'a \<times> BotInstance) \<Rightarrow> (error + 'a) \<times> BotInstance" where
  "redis_cmd b f =
     (let b' = b\<lparr>redis_calls := Suc (redis_calls b)\<rparr> in
      if redis_error b (redis_calls b) then (Inl Redis_error, b')
      else (Inr (fst (f b')), snd (f b')))"

definition SAdd :: "BotInstance \<Rightarrow> string \<Rightarrow> string \<Rightarrow> (error + unit) \<times> BotInstance" where
  "SAdd b key member =
     redis_cmd b (\<lambda>b. ((),
       if member \<in> set (redis_sets b key) then b
       else b\<lparr>redis_sets := (redis_sets b)(key := redis_sets b key @ [member])\<rparr>))"

definition SRem :: "BotInstance \<Rightarrow> string \<Rightarrow> string \<Rightarrow> (error + unit) \<times> BotInstance" where
  "SRem b key member =
     redis_cmd b (\<lambda>b. ((),
       b\<lparr>redis_sets := (redis_sets b)(key := removeAll member (redis_sets b key))\<rparr>))"

definition SIsMember :: "BotInstance \<Rightarrow> string \<Rightarrow> string \<Rightarrow> (error + bool) \<times> BotInstance" where
  "SIsMember b key member = redis_cmd b (\<lambda>b. (member \<in> set (redis_sets b key), b))"

definition SMembers :: "BotInstance \<Rightarrow> string \<Rightarrow> (error + string list) \<times> BotInstance" where
  "SMembers b key = redis_cmd b (\<lambda>b. (redis_sets b key, b))"

definition Set_cmd :: "BotInstance \<Rightarrow> string \<Rightarrow> string \<Rightarrow> (error + unit) \<times> BotInstance" where
  "Set_cmd b key val =
     redis_cmd b (\<lambda>b. ((), b\<lparr>redis_strings := (redis_strings b)(key \<mapsto> val)\<rparr>))"

definition Get_cmd :: "BotInstance \<Rightarrow> string \<Rightarrow> (error + string option) \<times> BotInstance" where
  "Get_cmd b key = redis_cmd b (\<lambda>b. (redis_strings b key, b))"

definition HSet :: "BotInstance \<Rightarrow> string \<Rightarrow> string \<Rightarrow> string \<Rightarrow> (error + unit) \<times> BotInstance"
where
  "HSet b key field val =
     redis_cmd b (\<lambda>b. ((),
       b\<lparr>redis_hashes := (redis_hashes b)(key := (redis_hashes b key)(field \<mapsto> val))\<rparr>))"

definition HMGet ::
  "BotInstance \<Rightarrow> string \<Rightarrow> string list \<Rightarrow> (error + string option list) \<times> BotInstance" where
  "HMGet b key flds = redis_cmd b (\<lambda>b. (map (redis_hashes b key) flds, b))"

definition UsersSetKey :: string where "UsersSetKey = ''telegram_bot_users''"
definition BlockedUsersSet :: string where "BlockedUsersSet = ''blocked_users''"

definition CheckAndAddUser :: "BotInstance \<Rightarrow> string \<Rightarrow> int \<Rightarrow> BotInstance" where
  "CheckAndAddUser b key userID = snd (SAdd b key (FormatInt userID))"

definition GetAllUserIDs :: "BotInstance \<Rightarrow> string \<Rightarrow> (error + string list) \<times> BotInstance" where
  "GetAllUserIDs b key = SMembers b key"

definition SetConfigValue ::
  "BotInstance \<Rightarrow> string \<Rightarrow> string \<Rightarrow> (error + unit) \<times> BotInstance" where
  "SetConfigValue b key val = Set_cmd b key val"

text \<open>\<open>GetConfigValue\<close>: a key that does not exist (\<open>redis.Nil\<close>) is the empty string.\<close>

definition GetConfigValue :: "BotInstance \<Rightarrow> string \<Rightarrow> (error + string) \<times> BotInstance" where
  "GetConfigValue b key =
     (case Get_cmd b key of
        (Inl e, b') \<Rightarrow> (Inl e, b')
      | (Inr None, b') \<Rightarrow> (Inr [], b')
      | (Inr (Some v), b') \<Rightarrow> (Inr v, b'))"

definition AddBlockedUser :: "BotInstance \<Rightarrow> int \<Rightarrow> (error + unit) \<times> BotInstance" where
  "AddBlockedUser b userID = SAdd b BlockedUsersSet (FormatInt userID)"

definition RemoveBlockedUser :: "BotInstance \<Rightarrow> int \<Rightarrow> (error + unit) \<times> BotInstance" where
  "RemoveBlockedUser b userID = SRem b BlockedUsersSet (FormatInt userID)"

definition IsUserBlocked :: "BotInstance \<Rightarrow> int \<Rightarrow> (error + bool) \<times> BotInstance" where
  "IsUserBlocked b userID = SIsMember b BlockedUsersSet (FormatInt userID)"

definition GetBlockedUserIDs :: "BotInstance \<Rightarrow> (error + string list) \<times> BotInstance" where
  "GetBlockedUserIDs b = SMembers b BlockedUsersSet"

text \<open>\<open>StoreUserInfo\<close>: three \<open>HSET\<close> commands; the first error ends it.\<close>

definition StoreUserInfo :: "BotInstance \<Rightarrow> User \<Rightarrow> (error + unit) \<times> BotInstance" where
  "StoreUserInfo b user =
     (let key = ''user:'' @ FormatInt (ID user) in
      case HSet b key ''first_name'' (FirstName user) of
        (Inl e, b1) \<Rightarrow> (Inl e, b1)
      | (Inr _, b1) \<Rightarrow>
          (case HSet b1 key ''last_name'' (LastName user) of
             (Inl e, b2) \<Rightarrow> (Inl e, b2)
           | (Inr _, b2) \<Rightarrow>
               (case HSet b2 key ''username'' (UserName user) of
                  (Inl e, b3) \<Rightarrow> (Inl e, b3)
                | (Inr _, b3) \<Rightarrow> (Inr (), b3))))"

text \<open>
  \<open>GetUserInfo\<close>: first name, last name and user name; a field that is not set is the
  empty string, and so are all three when the command fails.
\<close>

definition GetUserInfo ::
  "BotInstance \<Rightarrow> int \<Rightarrow> (string \<times> string \<times> string \<times> error option) \<times> BotInstance" where
  "GetUserInfo b userID =
     (let key = ''user:'' @ FormatInt userID in
      case HMGet b key [''first_name'', ''last_name'', ''username''] of
        (Inl e, b') \<Rightarrow> (([], [], [], Some e), b')
      | (Inr vals, b') \<Rightarrow>
          ((case vals ! 0 of None \<Rightarrow> [] | Some v \<Rightarrow> v,
            case vals ! 1 of None \<Rightarrow> [] | Some v \<Rightarrow> v,
            case vals ! 2 of None \<Rightarrow> [] | Some v \<Rightarrow> v,
            None), b'))"

section \<open>internal/broadcast/broadcasts.go\<close>

text \<open>Reading a Go map gives the zero value for a key that is not in it.\<close>

definition Broadcast_of :: "BotInstance \<Rightarrow> int \<Rightarrow> Message" where
  "Broadcast_of b chatID = (case Broadcasts b chatID of None \<Rightarrow> zero_Message | Some m \<Rightarrow> m)"

definition PromptMessageID_of :: "BotInstance \<Rightarrow> int \<Rightarrow> int" where
  "PromptMessageID_of b chatID =
     (case BroadcastPromptMessageIDs b chatID of None \<Rightarrow> 0 | Some i \<Rightarrow> i)"

definition getSkipMediaKeyboard :: InlineKeyboardMarkup where
  "getSkipMediaKeyboard = [[NewInlineKeyboardButtonData Label_skip_media ''bbuild_skip_media'']]"

definition getSkipButtonsKeyboard :: InlineKeyboardMarkup where
  "getSkipButtonsKeyboard =
     [[NewInlineKeyboardButtonData Label_skip_buttons ''bbuild_skip_buttons'']]"

definition getCancelKeyboard :: InlineKeyboardMarkup where
  "getCancelKeyboard = [[NewInlineKeyboardButtonData Label_cancel_broadcast ''bbuild_cancel'']]"

definition getBroadcastBuilderKeyboard :: "Message \<Rightarrow> InlineKeyboardMarkup" where
  "getBroadcastBuilderKeyboard broadcast =
     [[NewInlineKeyboardButtonData Label_edit_text ''bbuild_set_text'',
       NewInlineKeyboardButtonData Label_edit_media ''bbuild_set_media''],
      [NewInlineKeyboardButtonData Label_edit_buttons ''bbuild_set_buttons'']]
     @ (if Text broadcast \<noteq> [] \<or> MediaID broadcast \<noteq> []
        then [[NewInlineKeyboardButtonData Label_preview ''bbuild_preview''],
              [NewInlineKeyboardButtonData Label_send ''bbuild_send'']]
        else [])
     @ [[NewInlineKeyboardButtonData Label_cancel ''bbuild_cancel'']]"

definition StartBroadcastBuilder :: "BotInstance \<Rightarrow> int \<Rightarrow> BotInstance" where
  "StartBroadcastBuilder b chatID =
     (let b1 = b\<lparr>Broadcasts := (Broadcasts b)(chatID \<mapsto> zero_Message)\<rparr>;
          b2 = b1\<lparr>adminStates := (adminStates b1)(chatID \<mapsto> StateBroadcastAwaitText)\<rparr>
      in snd (Send b2 (NewMessage chatID Prompt_text [] (Some getCancelKeyboard))))"

definition sendBroadcastBuilderMenu :: "BotInstance \<Rightarrow> int \<Rightarrow> BotInstance" where
  "sendBroadcastBuilderMenu b chatID =
     (let broadcast = Broadcast_of b chatID;
          text = Builder_menu (Text broadcast)
                   (if MediaID broadcast \<noteq> [] then Some (Type broadcast) else None)
                   (length (Buttons broadcast) > 0);
          msg = NewMessage chatID text ''Markdown'' (Some (getBroadcastBuilderKeyboard broadcast));
          b1 = (if PromptMessageID_of b chatID \<noteq> 0
                then snd (Request b (NewDeleteMessage chatID (PromptMessageID_of b chatID)))
                else b);
          (sentMsg, b2) = Send b1 msg
      in case sentMsg of
           Some messageID \<Rightarrow>
             b2\<lparr>BroadcastPromptMessageIDs := (BroadcastPromptMessageIDs b2)(chatID \<mapsto> messageID)\<rparr>
         | None \<Rightarrow> b2)"

text \<open>
  \<open>sendComplexMessage\<close> returns whether no error occurred. With a media ID and a type that
  is neither photo nor video nothing is sent and the result is false; with neither media nor
  text nothing is sent and the result is true.
\<close>

definition sendComplexMessage :: "BotInstance \<Rightarrow> int \<Rightarrow> Message \<Rightarrow> bool \<times> BotInstance" where
  "sendComplexMessage b chatID broadcast =
     (let messageText = Broadcast_marked (Text broadcast) in
      if MediaID broadcast \<noteq> []
      then
        (let markup = (if length (Buttons broadcast) > 0 then Some (Buttons broadcast) else None)
         in if Type broadcast = ''photo''
            then (let (r, b1) = Send b (NewPhoto chatID (MediaID broadcast) messageText [] markup)
                  in (r \<noteq> None, b1))
            else if Type broadcast = ''video''
            then (let (r, b1) = Send b (NewVideo chatID (MediaID broadcast) messageText [] markup)
                  in (r \<noteq> None, b1))
            else (False, b))
      else if Text broadcast \<noteq> []
      then
        (let (r, b1) = Send b (NewMessage chatID messageText []
                                 (if length (Buttons broadcast) > 0
                                  then Some (Buttons broadcast) else None))
         in (r \<noteq> None, b1))
      else (True, b))"

definition sendBroadcastPreview :: "BotInstance \<Rightarrow> int \<Rightarrow> BotInstance" where
  "sendBroadcastPreview b chatID =
     (let broadcast = Broadcast_of b chatID in
      if Text broadcast = [] \<and> MediaID broadcast = []
      then snd (Send b (NewMessage chatID Preview_empty [] None))
      else
        (let b1 = snd (Send b (NewMessage chatID Preview_header [] None))
         in snd (sendComplexMessage b1 chatID broadcast)))"

text \<open>
  \<open>executeBroadcast\<close> starts the fan-out as a goroutine: the model records it, with the
  draft and the user list it captured, and \<open>fanout\<close> is what it does when it runs.
\<close>

definition executeBroadcast :: "BotInstance \<Rightarrow> int \<Rightarrow> BotInstance" where
  "executeBroadcast b chatID =
     (let broadcast = Broadcast_of b chatID in
      if Text broadcast = [] \<and> MediaID broadcast = []
      then snd (Send b (NewMessage chatID Send_empty [] None))
      else
        (case GetAllUserIDs b ''telegram_bot_users'' of
           (Inl err, b1) \<Rightarrow> snd (Send b1 (NewMessage chatID User_list_failed [] None))
         | (Inr allUserIDsStr, b1) \<Rightarrow>
             b1\<lparr>goroutines := goroutines b1 @ [(chatID, broadcast, allUserIDsStr)]\<rparr>))"

fun fanout_loop :: "BotInstance \<Rightarrow> Message \<Rightarrow> string list \<Rightarrow> nat \<Rightarrow> nat \<times> BotInstance" where
  "fanout_loop b broadcast [] count = (count, b)"
| "fanout_loop b broadcast (userIDStr # rest) count =
     (let userID = fst (ParseInt userIDStr) in
      if userID \<noteq> 0
      then
        (if fst (sendComplexMessage b userID broadcast)
         then fanout_loop (snd (sendComplexMessage b userID broadcast)) broadcast rest (count + 1)
         else fanout_loop (snd (sendComplexMessage b userID broadcast)) broadcast rest count)
      else fanout_loop b broadcast rest count)"

definition fanout :: "BotInstance \<Rightarrow> int \<times> Message \<times> string list \<Rightarrow> BotInstance" where
  "fanout b g =
     (case g of (chatID, broadcast, allUserIDsStr) \<Rightarrow>
        (let (count, b1) = fanout_loop b broadcast allUserIDsStr 0
         in snd (Send b1 (NewMessage chatID (Broadcast_done count) [] None))))"

definition HandleCallbackQuery :: "BotInstance \<Rightarrow> CallbackQuery \<Rightarrow> bool \<times> BotInstance" where
  "HandleCallbackQuery b q =
     (if \<not> HasPrefix (Data q) ''bbuild_'' then (False, b)
      else
        (let b0 = snd (Request b (NewCallback (query_ID q) (Str [])));
             chatID = query_Chat q;
             action = Data q
         in
         if action = ''bbuild_set_text'' then
           (let b1 = b0\<lparr>adminStates := (adminStates b0)(chatID \<mapsto> StateBroadcastAwaitText)\<rparr>
            in (True, snd (Send b1 (NewMessage chatID Prompt_text [] (Some getCancelKeyboard)))))
         else if action = ''bbuild_set_media'' then
           (let b1 = b0\<lparr>adminStates := (adminStates b0)(chatID \<mapsto> StateBroadcastAwaitMedia)\<rparr>
            in (True, snd (Send b1 (NewMessage chatID Prompt_media [] (Some getSkipMediaKeyboard)))))
         else if action = ''bbuild_skip_media'' then
           (let currentBroadcast = (Broadcast_of b0 chatID)\<lparr>MediaID := [], Type := []\<rparr>;
                b1 = b0\<lparr>Broadcasts := (Broadcasts b0)(chatID \<mapsto> currentBroadcast)\<rparr>;
                b2 = b1\<lparr>adminStates := (adminStates b1)(chatID \<mapsto> StateBroadcastAwaitButtons)\<rparr>;
                b3 = snd (Request b2 (NewCallback (query_ID q) Toast_media_skipped))
            in (True, snd (Send b3 (NewMessage chatID Prompt_buttons_media_skipped ''Markdown''
                                      (Some getSkipButtonsKeyboard)))))
         else if action = ''bbuild_set_buttons'' then
           (let b1 = b0\<lparr>adminStates := (adminStates b0)(chatID \<mapsto> StateBroadcastAwaitButtons)\<rparr>
            in (True, snd (Send b1 (NewMessage chatID Prompt_buttons ''Markdown''
                                      (Some getSkipButtonsKeyboard)))))
         else if action = ''bbuild_skip_buttons'' then
           (let currentBroadcast = (Broadcast_of b0 chatID)\<lparr>Buttons := []\<rparr>;
                b1 = b0\<lparr>Broadcasts := (Broadcasts b0)(chatID \<mapsto> currentBroadcast)\<rparr>;
                b2 = b1\<lparr>adminStates := (adminStates b1)(chatID \<mapsto> 0)\<rparr>;
                b3 = snd (Request b2 (NewCallback (query_ID q) Toast_buttons_skipped))
            in (True, sendBroadcastBuilderMenu b3 chatID))
         else if action = ''bbuild_preview'' then
           (True, sendBroadcastPreview b0 chatID)
         else if action = ''bbuild_cancel'' then
           (let b1 = b0\<lparr>adminStates := (adminStates b0)(chatID \<mapsto> 0)\<rparr>;
                b2 = b1\<lparr>Broadcasts := (Broadcasts b1)(chatID := None)\<rparr>;
                b3 = b2\<lparr>BroadcastPromptMessageIDs :=
                          (BroadcastPromptMessageIDs b2)(chatID := None)\<rparr>;
                b4 = snd (Request b3 (NewDeleteMessage chatID (query_MessageID q)))
            in (True, snd (Send b4 (NewMessage chatID Broadcast_cancelled [] None))))
         else if action = ''bbuild_send'' then
           (let b1 = executeBroadcast b0 chatID;
                b2 = b1\<lparr>adminStates := (adminStates b1)(chatID \<mapsto> 0)\<rparr>;
                b3 = b2\<lparr>Broadcasts := (Broadcasts b2)(chatID := None)\<rparr>;
                b4 = b3\<lparr>BroadcastPromptMessageIDs :=
                          (BroadcastPromptMessageIDs b3)(chatID := None)\<rparr>
            in (True, snd (Request b4 (NewDeleteMessage chatID (query_MessageID q)))))
         else (True, b0)))"

text \<open>
  The validation loop of the state \<open>StateBroadcastAwaitButtons\<close> (broadcasts.go 223-245):
  \<open>i\<close> is the index of the line; the result is the error text of the first line that is
  refused, if there is one.
\<close>

fun validate_lines :: "nat \<Rightarrow> string list \<Rightarrow> phrase option" where
  "validate_lines i [] = None"
| "validate_lines i (line # lines) =
     (let line = TrimSpace line in
      if line = [] then validate_lines (i + 1) lines
      else
        let parts = SplitN line CHR ''|'' 2 in
        if length parts \<noteq> 2 \<or> TrimSpace (parts ! 0) = [] \<or> TrimSpace (parts ! 1) = []
        then Some (Line_format_error (i + 1) line)
        else
          let url = TrimSpace (parts ! 1);
              url = Trim url (CHR 0x60)
          in if \<not> HasPrefix url ''http://'' \<and> \<not> HasPrefix url ''https://''
             then Some (Line_url_invalid (i + 1) url)
             else validate_lines (i + 1) lines)"

definition broadcast_HandleMessageInput :: "BotInstance \<Rightarrow> tg_Message \<Rightarrow> bool \<times> BotInstance"
where
  "broadcast_HandleMessageInput b msg =
     (let chatID = Chat msg in
      case adminStates b chatID of
        None \<Rightarrow> (False, b)
      | Some state \<Rightarrow>
         (let currentBroadcast = Broadcast_of b chatID in
          if state = StateBroadcastAwaitText then
            (if MsgText msg = []
             then (True, snd (Send b (NewMessage chatID Invalid_text_input []
                                        (Some getCancelKeyboard))))
             else
               (let b1 = b\<lparr>Broadcasts :=
                            (Broadcasts b)(chatID \<mapsto> currentBroadcast\<lparr>Text := MsgText msg\<rparr>)\<rparr>;
                    b2 = b1\<lparr>adminStates :=
                            (adminStates b1)(chatID \<mapsto> StateBroadcastAwaitMedia)\<rparr>;
                    b3 = snd (Request b2 (NewDeleteMessage chatID (MessageID msg)))
                in (True, snd (Send b3 (NewMessage chatID Prompt_media_text_set []
                                          (Some getSkipMediaKeyboard))))))
          else if state = StateBroadcastAwaitMedia then
            (if length (Photo msg) > 0 \<or> Video msg \<noteq> None
             then
               (let mediaID = (if length (Photo msg) > 0 then last (Photo msg)
                               else (case Video msg of Some v \<Rightarrow> v | None \<Rightarrow> []));
                    mediaType = (if length (Photo msg) > 0 then ''photo'' else ''video'');
                    b1 = b\<lparr>Broadcasts :=
                            (Broadcasts b)(chatID \<mapsto>
                               currentBroadcast\<lparr>MediaID := mediaID, Type := mediaType\<rparr>)\<rparr>;
                    b2 = b1\<lparr>adminStates :=
                            (adminStates b1)(chatID \<mapsto> StateBroadcastAwaitButtons)\<rparr>;
                    b3 = snd (Request b2 (NewDeleteMessage chatID (MessageID msg)))
                in (True, snd (Send b3 (NewMessage chatID Prompt_buttons_media_set ''Markdown''
                                          (Some getSkipButtonsKeyboard)))))
             else (True, snd (Send b (NewMessage chatID Invalid_media_input []
                                        (Some getSkipMediaKeyboard)))))
          else if state = StateBroadcastAwaitButtons then
            (case validate_lines 0 (Split (MsgText msg) (CHR 0x0A)) of
               Some errText \<Rightarrow>
                 (True, snd (Send b (NewMessage chatID errText [] (Some getSkipButtonsKeyboard))))
             | None \<Rightarrow>
                 (let b1 = b\<lparr>Broadcasts :=
                              (Broadcasts b)(chatID \<mapsto>
                                 currentBroadcast\<lparr>Buttons :=
                                   broadcast_ParseButtons (MsgText msg)\<rparr>)\<rparr>;
                      b2 = b1\<lparr>adminStates := (adminStates b1)(chatID \<mapsto> 0)\<rparr>;
                      b3 = snd (Request b2 (NewDeleteMessage chatID (MessageID msg)))
                  in (True, sendBroadcastBuilderMenu b3 chatID)))
          else (True, b)))"

section \<open>Package welcome (src/unnamed/part_001)\<close>

definition ConfigWelcomeMessage :: string where
  "ConfigWelcomeMessage = ''config:welcome_message''"

definition ConfigWelcomeButtons :: string where
  "ConfigWelcomeButtons = ''config:welcome_buttons''"

definition HandleStartCommand :: "BotInstance \<Rightarrow> int \<Rightarrow> BotInstance" where
  "HandleStartCommand b chatID =
     (let (r1, b1) = GetConfigValue b ConfigWelcomeMessage;
          welcomeMsgText =
            (case r1 of Inl err \<Rightarrow> Default_welcome
             | Inr t \<Rightarrow> if t = [] then Default_welcome else Str t);
          (r2, b2) = GetConfigValue b1 ConfigWelcomeButtons;
          keyboard =
            (case r2 of Inl err \<Rightarrow> []
             | Inr buttonsStr \<Rightarrow> if buttonsStr \<noteq> [] then welcome_ParseButtons buttonsStr else [])
      in snd (Send b2 (NewMessage chatID welcomeMsgText []
                         (if length keyboard > 0 then Some keyboard else None))))"

definition StartSetWelcomeProcess :: "BotInstance \<Rightarrow> int \<Rightarrow> BotInstance" where
  "StartSetWelcomeProcess b chatID =
     (let (r, b1) = GetConfigValue b ConfigWelcomeMessage;
          currentMsg =
            (case r of Inl err \<Rightarrow> Welcome_unreadable
             | Inr t \<Rightarrow> if t = [] then Welcome_unset else S t);
          b2 = snd (Send b1 (NewMessage chatID (Prompt_welcome currentMsg) [] None))
      in b2\<lparr>adminStates := (adminStates b2)(chatID \<mapsto> StateAwaitingWelcomeMessage)\<rparr>)"

definition StartSetButtonsProcess :: "BotInstance \<Rightarrow> int \<Rightarrow> BotInstance" where
  "StartSetButtonsProcess b chatID =
     (let (r, b1) = GetConfigValue b ConfigWelcomeButtons;
          currentButtons =
            (case r of Inl err \<Rightarrow> Buttons_unreadable
             | Inr t \<Rightarrow> if t = [] then Buttons_unset else S t);
          b2 = snd (Send b1 (NewMessage chatID (Prompt_welcome_buttons currentButtons)
                               ''Markdown'' None))
      in b2\<lparr>adminStates := (adminStates b2)(chatID \<mapsto> StateAwaitingWelcomeButtons)\<rparr>)"

definition handleWelcomeMessageInput :: "BotInstance \<Rightarrow> tg_Message \<Rightarrow> BotInstance" where
  "handleWelcomeMessageInput b msg =
     (let chatID = Chat msg in
      case SetConfigValue b ConfigWelcomeMessage (MsgText msg) of
        (Inl err, b1) \<Rightarrow> snd (Send b1 (NewMessage chatID Save_welcome_failed [] None))
      | (Inr _, b1) \<Rightarrow>
          (let b2 = b1\<lparr>adminStates := (adminStates b1)(chatID \<mapsto> 0)\<rparr>;
               b3 = snd (Send b2 (NewMessage chatID Welcome_updated [] None))
           in HandleStartCommand b3 chatID))"

definition handleWelcomeButtonsInput :: "BotInstance \<Rightarrow> tg_Message \<Rightarrow> BotInstance" where
  "handleWelcomeButtonsInput b msg =
     (let chatID = Chat msg in
      case SetConfigValue b ConfigWelcomeButtons (MsgText msg) of
        (Inl err, b1) \<Rightarrow> snd (Send b1 (NewMessage chatID Save_buttons_failed [] None))
      | (Inr _, b1) \<Rightarrow>
          (let b2 = b1\<lparr>adminStates := (adminStates b1)(chatID \<mapsto> 0)\<rparr>;
               b3 = snd (Send b2 (NewMessage chatID Welcome_buttons_updated [] None))
           in HandleStartCommand b3 chatID))"

definition HandleAdminMessageInput :: "BotInstance \<Rightarrow> tg_Message \<Rightarrow> bool \<times> BotInstance" where
  "HandleAdminMessageInput b msg =
     (case adminStates b (ID (From msg)) of
        None \<Rightarrow> (False, b)
      | Some state \<Rightarrow>
          if state = StateAwaitingWelcomeMessage then (True, handleWelcomeMessageInput b msg)
          else if state = StateAwaitingWelcomeButtons then (True, handleWelcomeButtonsInput b msg)
          else (False, b))"

section \<open>Package main (src/unnamed/part_000)\<close>

definition isAdmin :: "BotInstance \<Rightarrow> int \<Rightarrow> bool" where
  "isAdmin b userID \<longleftrightarrow> userID \<in> adminIDs b"

definition setCommandsForUser :: "BotInstance \<Rightarrow> int \<Rightarrow> BotInstance" where
  "setCommandsForUser b chatID =
     (let commands =
            (if isAdmin b chatID
             then [(''start'', Desc_start_admin), (''setwelcome'', Desc_setwelcome),
                   (''setbuttons'', Desc_setbuttons), (''broadcast'', Desc_broadcast),
                   (''listblocked'', Desc_listblocked), (''stats'', Desc_stats)]
             else [(''start'', Desc_start_user)])
      in snd (Request b (NewSetMyCommands chatID commands)))"

subsection \<open>handleListBlocked\<close>

text \<open>
  The two loops over the IDs of the page (main 271-296 and 299-311). Each asks the store
  for the user's names. \<open>start\<close> is the index of the page's first entry.
\<close>

definition displayName_of :: "string \<Rightarrow> string \<Rightarrow> string \<Rightarrow> string \<Rightarrow> string" where
  "displayName_of firstName lastName username idStr =
     (let displayName = (if username \<noteq> [] then ''@'' @ username else []);
          fullName = TrimSpace (firstName @ '' '' @ lastName);
          displayName =
            (if fullName \<noteq> []
             then (if displayName \<noteq> [] then displayName @ '' ('' @ fullName @ '')''
                   else fullName)
             else displayName);
          displayName = (if displayName = [] then ''Unknown'' else displayName)
      in displayName @ '' - ID: '' @ idStr)"

fun list_entries ::
  "BotInstance \<Rightarrow> int \<Rightarrow> nat \<Rightarrow> string list \<Rightarrow> (int \<times> string) list \<times> BotInstance" where
  "list_entries b start i [] = ([], b)"
| "list_entries b start i (idStr # rest) =
     (let index = start + int i + 1;
          userID = fst (ParseInt idStr);
          info = GetUserInfo b userID;
          firstName = fst (fst info);
          lastName = fst (snd (fst info));
          username = fst (snd (snd (fst info)));
          more = list_entries (snd info) start (i + 1) rest
      in ((index, displayName_of firstName lastName username idStr) # fst more, snd more))"

fun unblock_rows :: "BotInstance \<Rightarrow> string list \<Rightarrow> InlineKeyboardMarkup \<times> BotInstance" where
  "unblock_rows b [] = ([], b)"
| "unblock_rows b (idStr # rest) =
     (let userID = fst (ParseInt idStr);
          info = GetUserInfo b userID;
          firstName = fst (fst info);
          lastName = fst (snd (fst info));
          username = fst (snd (snd (fst info)));
          buttonText =
            (if username \<noteq> [] then Label_unblock_username username idStr
             else if firstName \<noteq> [] then Label_unblock_name firstName lastName idStr
             else Label_unblock_id idStr);
          more = unblock_rows (snd info) rest
      in ([NewInlineKeyboardButtonData buttonText (''unblock_'' @ idStr)] # fst more, snd more))"

text \<open>
  \<open>blockedIDs[start:end]\<close> is \<open>take (end - start) (drop start blockedIDs)\<close>; the slice
  cannot panic, since the page is between 1 and \<open>totalPages\<close> when it is taken.
\<close>

definition handleListBlocked :: "BotInstance \<Rightarrow> int \<Rightarrow> int \<Rightarrow> BotInstance" where
  "handleListBlocked b chatID page0 =
     (case GetBlockedUserIDs b of
        (Inl err, b1) \<Rightarrow> snd (Send b1 (NewMessage chatID List_blocked_failed [] None))
      | (Inr blockedIDs, b1) \<Rightarrow>
          if length blockedIDs = 0
          then snd (Send b1 (NewMessage chatID No_blocked_users [] None))
          else
            (let totalPages = (int (length blockedIDs) + UsersPerPage - 1) div UsersPerPage;
                 page = (if page0 < 1 \<or> page0 > totalPages then 1 else page0);
                 start = (page - 1) * UsersPerPage;
                 end0 = start + UsersPerPage;
                 end1 = (if end0 > int (length blockedIDs) then int (length blockedIDs) else end0);
                 currentIDs = take (nat (end1 - start)) (drop (nat start) blockedIDs);
                 (entries, b2) = list_entries b1 start 0 currentIDs;
                 (keyboard, b3) = unblock_rows b2 currentIDs;
                 paginationRow =
                   (if totalPages > 1
                    then (if page > 1
                          then [NewInlineKeyboardButtonData Label_prev_page
                                  (''page_prev_'' @ FormatInt (page - 1))]
                          else [])
                         @ (if page < totalPages
                            then [NewInlineKeyboardButtonData Label_next_page
                                    (''page_next_'' @ FormatInt (page + 1))]
                            else [])
                    else []);
                 keyboard = (if length paginationRow > 0 then keyboard @ [paginationRow]
                             else keyboard)
             in snd (Send b3 (NewMessage chatID (Blocked_list page totalPages entries) []
                                (if length keyboard > 0 then Some keyboard else None)))))"

subsection \<open>handleUserStats\<close>

definition handleUserStats :: "BotInstance \<Rightarrow> int \<Rightarrow> BotInstance" where
  "handleUserStats b chatID =
     (case GetAllUserIDs b UsersSetKey of
        (Inl err, b1) \<Rightarrow> snd (Send b1 (NewMessage chatID Stats_failed [] None))
      | (Inr userIDs, b1) \<Rightarrow>
          (let totalUsers = int (length userIDs);
               (r, b2) = GetBlockedUserIDs b1;
               blockedUsers = (case r of Inl err \<Rightarrow> [] | Inr ids \<Rightarrow> ids);
               blockedCount = int (length blockedUsers);
               activeUsers = totalUsers - blockedCount
           in snd (Send b2 (NewMessage chatID (Stats totalUsers activeUsers blockedCount) []
                              None))))"

subsection \<open>Messages of administrators\<close>

definition handleAdminStatefulMessage :: "BotInstance \<Rightarrow> tg_Message \<Rightarrow> BotInstance" where
  "handleAdminStatefulMessage b msg =
     (let (handled, b1) = HandleAdminMessageInput b msg in
      if handled then b1
      else
        (let (handled', b2) = broadcast_HandleMessageInput b1 msg in
         b2))"

text \<open>
  The regular expression \<open>\((\d+)\)\<close> (main 162): the leftmost \<open>(\<close> that is followed by
  one or more ASCII digits and a \<open>)\<close>; the result is the digits.
\<close>

fun FindStringSubmatch :: "string \<Rightarrow> string option" where
  "FindStringSubmatch [] = None"
| "FindStringSubmatch (c # s) =
     (if c = CHR ''('' \<and> takeWhile isDigit s \<noteq> []
         \<and> (case dropWhile isDigit s of [] \<Rightarrow> False | d # _ \<Rightarrow> d = CHR '')'')
      then Some (takeWhile isDigit s)
      else FindStringSubmatch s)"

definition parse_originalUserID :: "ReplyTo \<Rightarrow> int" where
  "parse_originalUserID r =
     (let textToParse = (if reply_Text r \<noteq> [] then reply_Text r
                         else if reply_Caption r \<noteq> [] then reply_Caption r else [])
      in if textToParse \<noteq> []
         then (case FindStringSubmatch textToParse of
                 None \<Rightarrow> 0
               | Some digits \<Rightarrow>
                   (case ParseInt digits of (v, None) \<Rightarrow> v | (v, Some err) \<Rightarrow> 0))
         else 0)"

definition reply_request :: "int \<Rightarrow> tg_Message \<Rightarrow> request option" where
  "reply_request originalUserID msg =
     (if MsgText msg \<noteq> [] then Some (NewMessage originalUserID (Str (MsgText msg)) [] None)
      else if Sticker msg \<noteq> None
      then Some (NewSticker originalUserID (case Sticker msg of Some f \<Rightarrow> f | None \<Rightarrow> []))
      else if length (Photo msg) > 0
      then Some (NewPhoto originalUserID (last (Photo msg)) (Str (Caption msg)) [] None)
      else if Video msg \<noteq> None
      then Some (NewVideo originalUserID (case Video msg of Some f \<Rightarrow> f | None \<Rightarrow> [])
                   (Str (Caption msg)) [] None)
      else if Document msg \<noteq> None
      then Some (NewDocument originalUserID (case Document msg of Some f \<Rightarrow> f | None \<Rightarrow> [])
                   (Str (Caption msg)) [] None)
      else None)"

definition handleAdminMessage :: "BotInstance \<Rightarrow> tg_Message \<Rightarrow> BotInstance" where
  "handleAdminMessage b msg =
     (if ReplyToMessage msg \<noteq> None \<and> forwardToAdminID b = Chat msg
      then
        (let originalUserID =
               (case ReplyToMessage msg of Some r \<Rightarrow> parse_originalUserID r | None \<Rightarrow> 0)
         in if originalUserID \<noteq> 0
            then
              (case reply_request originalUserID msg of
                 Some replyMsg \<Rightarrow>
                   (let (r, b1) = Send b replyMsg in
                    if r = None
                    then snd (Send b1 (NewMessage (forwardToAdminID b)
                                         (Reply_failed originalUserID) [] None))
                    else snd (Send b1 (NewMessage (forwardToAdminID b) Replied [] None)))
               | None \<Rightarrow>
                   snd (Send b (NewMessage (forwardToAdminID b) Reply_unsupported [] None)))
            else snd (Send b (NewMessage (forwardToAdminID b) Reply_no_user_id [] None)))
      else if IsCommand msg
      then
        (if Command msg = ''start''
         then HandleStartCommand (setCommandsForUser b (Chat msg)) (Chat msg)
         else if Command msg = ''setwelcome'' then StartSetWelcomeProcess b (Chat msg)
         else if Command msg = ''setbuttons'' then StartSetButtonsProcess b (Chat msg)
         else if Command msg = ''broadcast'' then StartBroadcastBuilder b (Chat msg)
         else if Command msg = ''listblocked'' then handleListBlocked b (Chat msg) 1
         else if Command msg = ''stats'' then handleUserStats b (Chat msg)
         else handleAdminStatefulMessage b msg)
      else handleAdminStatefulMessage b msg)"

subsection \<open>Callback queries\<close>

definition handleCallbackQuery :: "BotInstance \<Rightarrow> CallbackQuery \<Rightarrow> BotInstance" where
  "handleCallbackQuery b q =
     (if HasPrefix (Data q) ''unblock_''
      then
        (let parts = Split (Data q) CHR ''_'' in
         if length parts \<noteq> 2 then b
         else
           (case ParseInt (parts ! 1) of
              (userID, Some err) \<Rightarrow> b
            | (userID, None) \<Rightarrow>
                (case RemoveBlockedUser b userID of
                   (Inl err, b1) \<Rightarrow> b1
                 | (Inr _, b1) \<Rightarrow>
                     (let b2 = snd (Request b1 (NewCallback (query_ID q) Toast_unblocked))
                      in handleListBlocked b2 (query_Chat q) 1))))
      else if HasPrefix (Data q) ''page_prev_'' \<or> HasPrefix (Data q) ''page_next_''
      then
        (let parts = Split (Data q) CHR ''_'' in
         if length parts \<noteq> 3 then b
         else
           (case Atoi (parts ! 2) of
              (newPage, Some err) \<Rightarrow> b
            | (newPage, None) \<Rightarrow>
                (let b1 = handleListBlocked b (query_Chat q) newPage
                 in snd (Request b1 (NewCallback (query_ID q) (Str []))))))
      else if HasPrefix (Data q) ''block_''
      then
        (let parts = Split (Data q) CHR ''_'' in
         if length parts \<noteq> 2 then b
         else
           (case ParseInt (parts ! 1) of
              (userID, Some err) \<Rightarrow> b
            | (userID, None) \<Rightarrow>
                (case AddBlockedUser b userID of
                   (Inl err, b1) \<Rightarrow> b1
                 | (Inr _, b1) \<Rightarrow> snd (Request b1 (NewCallback (query_ID q) Toast_blocked)))))
      else
        (let (handled, b1) = HandleCallbackQuery b q in
         if handled then b1
         else snd (Request b1 (NewCallback (query_ID q) (Str [])))))"

subsection \<open>Messages of users\<close>

text \<open>
  \<open>strings.ReplaceAll(text, c, "\\" + c)\<close> for a one-byte \<open>c\<close>, and \<open>escapeMarkdownV2\<close>,
  which applies it for each reserved character in turn.
\<close>

definition ReplaceAll_escape :: "string \<Rightarrow> char \<Rightarrow> string" where
  "ReplaceAll_escape t c = concat (map (\<lambda>x. if x = c then [CHR 0x5C, c] else [x]) t)"

definition reservedChars :: "char list" where
  "reservedChars = [CHR ''_'', CHR ''*'', CHR ''['', CHR '']'', CHR ''('', CHR '')'', CHR ''~'',
      CHR 0x60, CHR ''>'', CHR ''#'', CHR ''+'', CHR ''-'', CHR ''='', CHR ''|'', CHR ''{'',
      CHR ''}'', CHR ''.'', CHR ''!'']"

definition escapeMarkdownV2 :: "string \<Rightarrow> string" where
  "escapeMarkdownV2 t = foldl ReplaceAll_escape t reservedChars"

definition handleUserMessage :: "BotInstance \<Rightarrow> tg_Message \<Rightarrow> BotInstance" where
  "handleUserMessage b msg =
     (case IsUserBlocked b (ID (From msg)) of
        (Inl err, b1) \<Rightarrow> b1
      | (Inr isBlocked, b1) \<Rightarrow>
          if isBlocked
          then snd (Send b1 (NewMessage (Chat msg) Blocked_notice [] None))
          else if IsCommand msg \<and> Command msg = ''start''
          then HandleStartCommand (setCommandsForUser b1 (Chat msg)) (Chat msg)
          else if forwardToAdminID b1 \<noteq> 0
          then
            (let escapedName = escapeMarkdownV2 (FirstName (From msg));
                 user = ID (From msg);
                 (r, b2) = IsUserBlocked b1 user;
                 isBlocked2 = (case r of Inl err \<Rightarrow> False | Inr v \<Rightarrow> v);
                 blockButton =
                   (if isBlocked2
                    then NewInlineKeyboardButtonData Label_unblock (''unblock_'' @ FormatInt user)
                    else NewInlineKeyboardButtonData Label_block (''block_'' @ FormatInt user));
                 dialogButton =
                   NewInlineKeyboardButtonURL Label_dialog (''tg://user?id='' @ FormatInt user);
                 keyboard = [[dialogButton, blockButton]];
                 target = forwardToAdminID b2;
                 b3 = (if Sticker msg \<noteq> None \<and> MsgText msg = [] \<and> length (Photo msg) = 0
                       then snd (Send b2 (NewSticker target
                                            (case Sticker msg of Some f \<Rightarrow> f | None \<Rightarrow> [])))
                       else b2);
                 toAdminMsg =
                   (if MsgText msg \<noteq> []
                    then NewMessage target
                           (Forward_text escapedName user (escapeMarkdownV2 (MsgText msg)))
                           ''MarkdownV2'' (Some keyboard)
                    else if length (Photo msg) > 0
                    then NewPhoto target (last (Photo msg)) (Forward_caption escapedName user)
                           ''MarkdownV2'' (Some keyboard)
                    else if Sticker msg \<noteq> None
                    then NewMessage target (Forward_caption escapedName user)
                           ''MarkdownV2'' (Some keyboard)
                    else if Video msg \<noteq> None
                    then NewVideo target (case Video msg of Some f \<Rightarrow> f | None \<Rightarrow> [])
                           (Forward_caption escapedName user) ''MarkdownV2'' (Some keyboard)
                    else if Document msg \<noteq> None
                    then NewDocument target (case Document msg of Some f \<Rightarrow> f | None \<Rightarrow> [])
                           (Forward_caption escapedName user) ''MarkdownV2'' (Some keyboard)
                    else NewMessage target (Forward_unsupported escapedName user)
                           ''MarkdownV2'' (Some keyboard));
                 b4 = snd (Send b3 toAdminMsg)
             in snd (Send b4 (NewMessage (Chat msg) Received_ack [] None)))
          else snd (Send b1 (NewMessage (Chat msg) Unroutable [] None)))"

definition handleMessage :: "BotInstance \<Rightarrow> tg_Message \<Rightarrow> BotInstance" where
  "handleMessage b msg =
     (if isAdmin b (ID (From msg)) then handleAdminMessage b msg else handleUserMessage b msg)"

text \<open>
  \<open>handleUpdate\<close>. A message without sender passes the guard of line 117 and then
  dereferences \<open>update.Message.From\<close> at line 124, which panics.
\<close>

definition handleUpdate :: "BotInstance \<Rightarrow> Update \<Rightarrow> error + BotInstance" where
  "handleUpdate b update =
     (case update of
        Update_Message msg \<Rightarrow>
          (let b1 = snd (StoreUserInfo b (From msg));
               (r, b2) = IsUserBlocked b1 (ID (From msg));
               isBlocked = (case r of Inl err \<Rightarrow> False | Inr v \<Rightarrow> v);
               b3 = (if \<not> isBlocked then CheckAndAddUser b2 UsersSetKey (ID (From msg)) else b2)
           in Inr (handleMessage b3 msg))
      | Update_Message_no_From \<Rightarrow> Inl Nil_dereference
      | Update_CallbackQuery q \<Rightarrow> Inr (handleCallbackQuery b q)
      | Update_other \<Rightarrow> Inr b)"

subsection \<open>Start-up\<close>

text \<open>
  The state \<open>NewBotInstance\<close> returns (main 87-97): the administrators and the forwarding
  chat from the environment, empty maps, nothing sent yet. The arguments \<open>rerr\<close> and
  \<open>ares\<close> say how the store and the Telegram API will answer; the store is taken empty.
\<close>

definition NewBotInstance ::
  "int set \<Rightarrow> int \<Rightarrow> (nat \<Rightarrow> bool) \<Rightarrow> (nat \<Rightarrow> int option) \<Rightarrow> BotInstance" where
  "NewBotInstance admins forward rerr ares =
     \<lparr>adminIDs = admins, adminStates = Map.empty, forwardToAdminID = forward,
      Broadcasts = Map.empty, BroadcastPromptMessageIDs = Map.empty,
      redis_sets = (\<lambda>k. []), redis_strings = Map.empty, redis_hashes = (\<lambda>k. Map.empty),
      redis_calls = 0, redis_error = rerr, requests = [], api_result = ares,
      goroutines = []\<rparr>"

subsection \<open>Concrete inputs\<close>

text \<open>
  Inputs for evaluating the handlers: a bot with administrator 1, forwarding chat 1, a store
  and an API that always answer; a text message in a user's private chat; a press on an
  inline button in a chat.
\<close>

definition bot0 :: BotInstance where
  "bot0 = NewBotInstance {1} 1 (\<lambda>n. False) (\<lambda>n. Some (1000 + int n))"

definition text_message :: "int \<Rightarrow> string \<Rightarrow> tg_Message" where
  "text_message user t =
     \<lparr>MessageID = 100,
      From = \<lparr>ID = user, FirstName = ''Ann'', LastName = [], UserName = []\<rparr>,
      Chat = user, MsgText = t, Caption = [], Photo = [], Video = None, Sticker = None,
      Document = None, ReplyToMessage = None, IsCommand = False, Command = []\<rparr>"

definition button_press :: "int \<Rightarrow> string \<Rightarrow> CallbackQuery" where
  "button_press chat d = \<lparr>query_ID = ''q'', Data = d, query_Chat = chat, query_MessageID = 50\<rparr>"

text \<open>The bot after \<open>/broadcast\<close> in chat 1 and a press on the cancel button.\<close>

definition cancelled_bot :: BotInstance where
  "cancelled_bot =
     snd (HandleCallbackQuery (StartBroadcastBuilder bot0 1) (button_press 1 ''bbuild_cancel''))"

subsection \<open>Button lines, as the validation of the broadcast flow reads them\<close>

text \<open>
  Notions for stating what the validation loop accepts. A line is read after \<open>TrimSpace\<close>;
  its label segment is what stands before the first \<open>|\<close>, its URL segment what stands
  after the first \<open>|\<close>, both trimmed of white space; its URL is the URL segment without
  surrounding backticks. A line is well formed when it has a \<open>|\<close> and both segments are
  not empty. A line is accepted when it is blank, or well formed with a URL that starts with
  \<open>http://\<close> or \<open>https://\<close>. \<open>refusal n l\<close> is the error text for line number
  \<open>n\<close> with content \<open>l\<close>.
\<close>

definition label_segment :: "string \<Rightarrow> string" where
  "label_segment l = TrimSpace (takeWhile (\<lambda>c. c \<noteq> CHR ''|'') (TrimSpace l))"

definition url_segment :: "string \<Rightarrow> string" where
  "url_segment l = TrimSpace (tl (dropWhile (\<lambda>c. c \<noteq> CHR ''|'') (TrimSpace l)))"

definition line_url :: "string \<Rightarrow> string" where
  "line_url l = Trim (url_segment l) (CHR 0x60)"

definition has_scheme :: "string \<Rightarrow> bool" where
  "has_scheme url \<longleftrightarrow> HasPrefix url ''http://'' \<or> HasPrefix url ''https://''"

definition well_formed :: "string \<Rightarrow> bool" where
  "well_formed l \<longleftrightarrow>
     CHR ''|'' \<in> set (TrimSpace l) \<and> label_segment l \<noteq> [] \<and> url_segment l \<noteq> []"

definition line_accepted :: "string \<Rightarrow> bool" where
  "line_accepted l \<longleftrightarrow> TrimSpace l = [] \<or> (well_formed l \<and> has_scheme (line_url l))"

definition refusal :: "nat \<Rightarrow> string \<Rightarrow> phrase" where
  "refusal n l =
     (if well_formed l then Line_url_invalid n (line_url l)
      else Line_format_error n (TrimSpace l))"

text \<open>The bot after \<open>/broadcast\<close>, the text \<open>Hello\<close> and a press on skip-media in chat 1.\<close>

definition awaiting_buttons_bot :: BotInstance where
  "awaiting_buttons_bot =
     snd (HandleCallbackQuery
            (snd (broadcast_HandleMessageInput (StartBroadcastBuilder bot0 1)
                    (text_message 1 ''Hello'')))
            (button_press 1 ''bbuild_skip_media''))"

section \<open>Properties\<close>

subsection \<open>The transport and the store\<close>

lemma snd_Send: "snd (Send b r) = b\<lparr>requests := requests b @ [r]\<rparr>"
  by (simp add: Send_def)

lemma fst_Send: "fst (Send b r) = api_result b (length (requests b))"
  by (simp add: Send_def)

lemma snd_Request: "snd (Request b r) = b\<lparr>requests := requests b @ [r]\<rparr>"
  by (simp add: Request_def Send_def)

subsection \<open>An empty draft is neither previewed nor sent\<close>

text \<open>
  C3. For every draft with empty text and empty media (also when the chat has no draft, which
  reads as the zero value), \<open>sendBroadcastPreview\<close> and \<open>executeBroadcast\<close> each send the
  chat their empty-content notice and do nothing else: no other request is made, the store
  is not asked for the user list, and no fan-out goroutine is started.
\<close>

theorem empty_draft_rejected:
  assumes "Text (Broadcast_of b chatID) = []" and "MediaID (Broadcast_of b chatID) = []"
  shows "sendBroadcastPreview b chatID
           = b\<lparr>requests := requests b @ [NewMessage chatID Preview_empty [] None]\<rparr>
       \<and> executeBroadcast b chatID
           = b\<lparr>requests := requests b @ [NewMessage chatID Send_empty [] None]\<rparr>
       \<and> goroutines (sendBroadcastPreview b chatID) = goroutines b
       \<and> goroutines (executeBroadcast b chatID) = goroutines b
       \<and> redis_calls (executeBroadcast b chatID) = redis_calls b"
  using assms by (simp add: sendBroadcastPreview_def executeBroadcast_def snd_Send)

theorem empty_draft_rejected_witness:
  "Text (Broadcast_of (StartBroadcastBuilder bot0 1) 1) = []
   \<and> MediaID (Broadcast_of (StartBroadcastBuilder bot0 1) 1) = []
   \<and> requests (executeBroadcast (StartBroadcastBuilder bot0 1) 1)
       = [NewMessage 1 Prompt_text [] (Some getCancelKeyboard),
          NewMessage 1 Send_empty [] None]
   \<and> requests (sendBroadcastPreview (StartBroadcastBuilder bot0 1) 1)
       = [NewMessage 1 Prompt_text [] (Some getCancelKeyboard),
          NewMessage 1 Preview_empty [] None]"
  using empty_draft_rejected [of "StartBroadcastBuilder bot0 1" 1]
  by (simp add: bot0_def NewBotInstance_def StartBroadcastBuilder_def Broadcast_of_def
        zero_Message_def snd_Send)

subsection \<open>A message in a chat whose state was cleared\<close>

lemma HandleAdminMessageInput_StateNone:
  "adminStates b (ID (From msg)) = Some 0 \<Longrightarrow> HandleAdminMessageInput b msg = (False, b)"
  by (simp add: HandleAdminMessageInput_def StateAwaitingWelcomeMessage_def
        StateAwaitingWelcomeButtons_def)

lemma broadcast_HandleMessageInput_StateNone:
  "adminStates b (Chat msg) = Some 0 \<Longrightarrow> broadcast_HandleMessageInput b msg = (True, b)"
  by (simp add: broadcast_HandleMessageInput_def StateBroadcastAwaitText_def
        StateBroadcastAwaitMedia_def StateBroadcastAwaitButtons_def)

lemma broadcast_HandleMessageInput_no_state:
  "adminStates b (Chat msg) = None \<Longrightarrow> broadcast_HandleMessageInput b msg = (False, b)"
  by (simp add: broadcast_HandleMessageInput_def)

lemma cancelled_bot_state: "adminStates cancelled_bot 1 = Some 0"
  by (simp add: cancelled_bot_def HandleCallbackQuery_def HasPrefix_def button_press_def
        snd_Send snd_Request Let_def)

text \<open>
  C1. The claim says that after a chat's state was cleared (set to 0) both stateful handlers
  return false for a message of that chat. \<open>HandleAdminMessageInput\<close> does. But
  \<open>broadcast.HandleMessageInput\<close> returns false only when the chat has no entry in
  \<open>AdminStates\<close>; clearing writes the value 0, the switch of line 168 has no case for it,
  and the function falls through to \<open>return true\<close> at line 254 without doing anything.
  Evaluated here after \<open>/broadcast\<close> and a press on cancel in chat 1: the state is 0, the
  welcome handler returns false, the broadcast handler returns true and leaves the bot as it
  was.
\<close>

theorem cleared_state_message_claimed:
  "adminStates cancelled_bot 1 = Some StateNone
   \<and> HandleAdminMessageInput cancelled_bot (text_message 1 ''hello'') = (False, cancelled_bot)
   \<and> broadcast_HandleMessageInput cancelled_bot (text_message 1 ''hello'')
       = (True, cancelled_bot)"
  using cancelled_bot_state
  by (simp add: StateNone_def HandleAdminMessageInput_StateNone
        broadcast_HandleMessageInput_StateNone text_message_def)

subsection \<open>A send that is refused for empty content\<close>

text \<open>
  C4. The claim says that a validation error leaves the conversation state and the draft as
  they were, in particular when a send is refused for empty content. \<open>executeBroadcast\<close>
  refuses the empty draft and returns, but the \<open>bbuild_send\<close> case of
  \<open>HandleCallbackQuery\<close> (lines 144-151) then clears the state, deletes the draft and
  the prompt handle and deletes the menu message, whatever \<open>executeBroadcast\<close> did.
  Evaluated here after \<open>/broadcast\<close> in chat 1 (state \<open>StateBroadcastAwaitText\<close>, an
  empty draft) and a press on a send button: the empty-content notice is sent, the state
  becomes 0 and the draft is gone.
\<close>

theorem rejected_send_clears_state:
  "adminStates (StartBroadcastBuilder bot0 1) 1 = Some StateBroadcastAwaitText
   \<and> Broadcasts (StartBroadcastBuilder bot0 1) 1 = Some zero_Message
   \<and> requests (snd (HandleCallbackQuery (StartBroadcastBuilder bot0 1)
                      (button_press 1 ''bbuild_send'')))
       = [NewMessage 1 Prompt_text [] (Some getCancelKeyboard),
          NewCallback ''q'' (Str []),
          NewMessage 1 Send_empty [] None,
          NewDeleteMessage 1 50]
   \<and> adminStates (snd (HandleCallbackQuery (StartBroadcastBuilder bot0 1)
                      (button_press 1 ''bbuild_send''))) 1 = Some StateNone
   \<and> Broadcasts (snd (HandleCallbackQuery (StartBroadcastBuilder bot0 1)
                      (button_press 1 ''bbuild_send''))) 1 = None"
  by (simp add: HandleCallbackQuery_def HasPrefix_def button_press_def StartBroadcastBuilder_def
        bot0_def NewBotInstance_def executeBroadcast_def Broadcast_of_def zero_Message_def
        snd_Send snd_Request Let_def StateNone_def)

subsection \<open>The validation of button lines\<close>

lemma SplitN_2:
  "SplitN s c 2 =
     (if c \<in> set s then [takeWhile (\<lambda>x. x \<noteq> c) s, tl (dropWhile (\<lambda>x. x \<noteq> c) s)] else [s])"
  by (simp add: numeral_2_eq_2)

lemma validate_lines_Cons:
  "validate_lines i (l # ls) =
     (if line_accepted l then validate_lines (Suc i) ls else Some (refusal (Suc i) l))"
  by (auto simp: line_accepted_def well_formed_def has_scheme_def line_url_def refusal_def
        label_segment_def url_segment_def SplitN_2 Let_def)

lemma validate_lines_None_iff:
  "validate_lines i ls = None \<longleftrightarrow> (\<forall>l\<in>set ls. line_accepted l)"
  by (induction ls arbitrary: i) (simp_all add: validate_lines_Cons del: validate_lines.simps(2))


lemma sendBroadcastBuilderMenu_frame:
  "adminStates (sendBroadcastBuilderMenu b c) = adminStates b
   \<and> Broadcasts (sendBroadcastBuilderMenu b c) = Broadcasts b"
  by (simp add: sendBroadcastBuilderMenu_def Let_def snd_Request Send_def
      split: option.splits prod.splits)

lemma awaiting_buttons_bot_state:
  "adminStates awaiting_buttons_bot 1 = Some StateBroadcastAwaitButtons"
  by (simp add: awaiting_buttons_bot_def HandleCallbackQuery_def HasPrefix_def button_press_def
        snd_Send snd_Request Let_def)

lemma awaiting_buttons_bot_draft:
  "Broadcasts awaiting_buttons_bot 1 = Some \<lparr>Text = ''Hello'', MediaID = [], Type = [], Buttons = []\<rparr>"
  by (simp add: awaiting_buttons_bot_def HandleCallbackQuery_def HasPrefix_def button_press_def
        snd_Send snd_Request Let_def broadcast_HandleMessageInput_def StartBroadcastBuilder_def
        bot0_def NewBotInstance_def text_message_def Broadcast_of_def zero_Message_def
        StateBroadcastAwaitText_def)

text \<open>
  What \<open>line_accepted\<close> says of a line, without \<open>takeWhile\<close> and \<open>dropWhile\<close>: the line is
  blank, or it is \<open>a | u\<close> with no \<open>|\<close> in \<open>a\<close>, where \<open>a\<close> and \<open>u\<close> are not blank and
  \<open>u\<close>, trimmed of white space and of surrounding backticks, starts with \<open>http://\<close> or
  \<open>https://\<close>. The URL segment \<open>u\<close> may hold further \<open>|\<close>.
\<close>

lemma line_accepted_iff:
  "line_accepted l \<longleftrightarrow>
     TrimSpace l = []
     \<or> (\<exists>a u. TrimSpace l = a @ CHR ''|'' # u \<and> CHR ''|'' \<notin> set a
            \<and> TrimSpace a \<noteq> [] \<and> TrimSpace u \<noteq> []
            \<and> has_scheme (Trim (TrimSpace u) (CHR 0x60)))"
proof -
  let ?s = "TrimSpace l"
  let ?P = "\<lambda>c. c \<noteq> CHR ''|''"
  have split: "?s = takeWhile ?P ?s @ CHR ''|'' # tl (dropWhile ?P ?s)"
    if "CHR ''|'' \<in> set ?s"
  proof -
    from that have "dropWhile ?P ?s \<noteq> []" by auto
    moreover have "hd (dropWhile ?P ?s) = CHR ''|''"
      using hd_dropWhile [OF \<open>dropWhile ?P ?s \<noteq> []\<close>] by simp
    ultimately have "dropWhile ?P ?s = CHR ''|'' # tl (dropWhile ?P ?s)"
      by (cases "dropWhile ?P ?s") simp_all
    with takeWhile_dropWhile_id [of ?P ?s] show ?thesis
      by simp
  qed
  have parts: "takeWhile ?P ?s = a \<and> tl (dropWhile ?P ?s) = u"
    if "?s = a @ CHR ''|'' # u" "CHR ''|'' \<notin> set a" for a u
  proof -
    from that(2) have "\<forall>x\<in>set a. ?P x" by auto
    then have "takeWhile ?P (a @ CHR ''|'' # u) = a"
      and "dropWhile ?P (a @ CHR ''|'' # u) = CHR ''|'' # u"
      by (simp_all add: takeWhile_append2 dropWhile_append2)
    with that(1) show ?thesis by simp
  qed
  show ?thesis
  proof
    assume acc: "line_accepted l"
    show "?s = [] \<or> (\<exists>a u. ?s = a @ CHR ''|'' # u \<and> CHR ''|'' \<notin> set a
            \<and> TrimSpace a \<noteq> [] \<and> TrimSpace u \<noteq> []
            \<and> has_scheme (Trim (TrimSpace u) (CHR 0x60)))"
    proof (cases "?s = []")
      case True
      then show ?thesis by simp
    next
      case False
      with acc have wf: "CHR ''|'' \<in> set ?s" "TrimSpace (takeWhile ?P ?s) \<noteq> []"
        "TrimSpace (tl (dropWhile ?P ?s)) \<noteq> []"
        "has_scheme (Trim (TrimSpace (tl (dropWhile ?P ?s))) (CHR 0x60))"
        by (simp_all add: line_accepted_def well_formed_def label_segment_def url_segment_def
              line_url_def)
      have "CHR ''|'' \<notin> set (takeWhile ?P ?s)"
        using set_takeWhileD [of "CHR ''|''" ?P ?s] by blast
      with split [OF wf(1)] wf(2,3,4)
      have "?s = takeWhile ?P ?s @ CHR ''|'' # tl (dropWhile ?P ?s)
          \<and> CHR ''|'' \<notin> set (takeWhile ?P ?s)
          \<and> TrimSpace (takeWhile ?P ?s) \<noteq> [] \<and> TrimSpace (tl (dropWhile ?P ?s)) \<noteq> []
          \<and> has_scheme (Trim (TrimSpace (tl (dropWhile ?P ?s))) (CHR 0x60))"
        by simp
      then show ?thesis by blast
    qed
  next
    assume "?s = [] \<or> (\<exists>a u. ?s = a @ CHR ''|'' # u \<and> CHR ''|'' \<notin> set a
            \<and> TrimSpace a \<noteq> [] \<and> TrimSpace u \<noteq> []
            \<and> has_scheme (Trim (TrimSpace u) (CHR 0x60)))"
    then show "line_accepted l"
    proof
      assume "?s = []"
      then show ?thesis by (simp add: line_accepted_def)
    next
      assume "\<exists>a u. ?s = a @ CHR ''|'' # u \<and> CHR ''|'' \<notin> set a
            \<and> TrimSpace a \<noteq> [] \<and> TrimSpace u \<noteq> []
            \<and> has_scheme (Trim (TrimSpace u) (CHR 0x60))"
      then obtain a u where au: "?s = a @ CHR ''|'' # u" "CHR ''|'' \<notin> set a"
        "TrimSpace a \<noteq> []" "TrimSpace u \<noteq> []" "has_scheme (Trim (TrimSpace u) (CHR 0x60))"
        by blast
      from parts [OF au(1,2)] au show ?thesis
        by (simp add: line_accepted_def well_formed_def label_segment_def url_segment_def
              line_url_def)
    qed
  qed
qed

subsection \<open>A button input with a refused line\<close>






subsection \<open>What the button input accepts\<close>

lemma two_separators_validate:
  "validate_lines 0 (Split ''Site | https://x.test/?a=1|2'' (CHR 0x0A)) = None"
  by code_simp

lemma two_separators_parse:
  "broadcast_ParseButtons ''Site | https://x.test/?a=1|2''
     = [[NewInlineKeyboardButtonURL (Str ''Site'') ''https://x.test/?a=1|2'']]"
  by code_simp

lemma two_separators_count: "count_list ''Site | https://x.test/?a=1|2'' CHR ''|'' = 2"
  by code_simp

lemma HandleMessageInput_buttons_accepted:
  assumes "adminStates b (Chat msg) = Some StateBroadcastAwaitButtons"
      and "validate_lines 0 (Split (MsgText msg) (CHR 0x0A)) = None"
  shows "fst (broadcast_HandleMessageInput b msg) = True"
    and "adminStates (snd (broadcast_HandleMessageInput b msg))
           = (adminStates b)(Chat msg \<mapsto> 0)"
    and "Broadcasts (snd (broadcast_HandleMessageInput b msg))
           = (Broadcasts b)(Chat msg \<mapsto>
                (Broadcast_of b (Chat msg))\<lparr>Buttons := broadcast_ParseButtons (MsgText msg)\<rparr>)"
  using assms
  by (simp_all add: broadcast_HandleMessageInput_def StateBroadcastAwaitText_def
        StateBroadcastAwaitMedia_def StateBroadcastAwaitButtons_def snd_Request Let_def
        sendBroadcastBuilderMenu_frame)

text \<open>
  C7, as stated, fails: a line with two \<open>|\<close> is accepted. \<open>SplitN(line, "|", 2)\<close> cuts at
  the first \<open>|\<close> only, so the second one is part of the URL. Here the input
  \<open>Site | https://x.test/?a=1|2\<close> in the state \<open>StateBroadcastAwaitButtons\<close> sets the
  state to 0 and stores the button.
\<close>

theorem second_separator_accepted:
  "count_list ''Site | https://x.test/?a=1|2'' CHR ''|'' = 2
   \<and> adminStates awaiting_buttons_bot 1 = Some StateBroadcastAwaitButtons
   \<and> adminStates (snd (broadcast_HandleMessageInput awaiting_buttons_bot
        (text_message 1 ''Site | https://x.test/?a=1|2''))) 1 = Some StateNone
   \<and> Broadcasts (snd (broadcast_HandleMessageInput awaiting_buttons_bot
        (text_message 1 ''Site | https://x.test/?a=1|2''))) 1
       = Some \<lparr>Text = ''Hello'', MediaID = [], Type = [],
               Buttons = [[NewInlineKeyboardButtonURL (Str ''Site'')
                             ''https://x.test/?a=1|2'']]\<rparr>"
proof -
  let ?m = "text_message 1 ''Site | https://x.test/?a=1|2''"
  have h1: "adminStates awaiting_buttons_bot (Chat ?m) = Some StateBroadcastAwaitButtons"
    by (simp add: text_message_def awaiting_buttons_bot_state)
  have h2: "validate_lines 0 (Split (MsgText ?m) (CHR 0x0A)) = None"
    using two_separators_validate by (simp add: text_message_def)
  show ?thesis
    using HandleMessageInput_buttons_accepted [OF h1 h2] two_separators_count
      two_separators_parse awaiting_buttons_bot_state awaiting_buttons_bot_draft
    by (simp add: text_message_def StateNone_def Broadcast_of_def)
qed

text \<open>
  C7, amended. In the state \<open>StateBroadcastAwaitButtons\<close> the input is accepted exactly
  when every line is accepted in the sense of \<open>line_accepted\<close>: blank, or with at least
  one \<open>|\<close>, a label before the first \<open>|\<close> and a URL segment after it that are not
  blank, and a URL with scheme \<open>http://\<close> or \<open>https://\<close> (see \<open>line_accepted_iff\<close>).
  Then the parsed buttons are stored in the draft and the state becomes 0. Otherwise the
  states and the drafts stay as they were.
\<close>

theorem button_input_accepted_iff:
  assumes "adminStates b (Chat msg) = Some StateBroadcastAwaitButtons"
  shows "((\<forall>l\<in>set (Split (MsgText msg) (CHR 0x0A)). line_accepted l) \<longrightarrow>
              fst (broadcast_HandleMessageInput b msg) = True
            \<and> adminStates (snd (broadcast_HandleMessageInput b msg))
                = (adminStates b)(Chat msg \<mapsto> StateNone)
            \<and> Broadcasts (snd (broadcast_HandleMessageInput b msg))
                = (Broadcasts b)(Chat msg \<mapsto>
                    (Broadcast_of b (Chat msg))\<lparr>Buttons :=
                       broadcast_ParseButtons (MsgText msg)\<rparr>))
       \<and> ((\<exists>l\<in>set (Split (MsgText msg) (CHR 0x0A)). \<not> line_accepted l) \<longrightarrow>
              fst (broadcast_HandleMessageInput b msg) = True
            \<and> adminStates (snd (broadcast_HandleMessageInput b msg)) = adminStates b
            \<and> Broadcasts (snd (broadcast_HandleMessageInput b msg)) = Broadcasts b)"
proof (cases "\<forall>l\<in>set (Split (MsgText msg) (CHR 0x0A)). line_accepted l")
  case True
  then have "validate_lines 0 (Split (MsgText msg) (CHR 0x0A)) = None"
    by (simp add: validate_lines_None_iff)
  from HandleMessageInput_buttons_accepted [OF assms this] True show ?thesis
    by (auto simp add: StateNone_def)
next
  case False
  then obtain e where "validate_lines 0 (Split (MsgText msg) (CHR 0x0A)) = Some e"
    using validate_lines_None_iff [of 0 "Split (MsgText msg) (CHR 0x0A)"] by auto
  with assms False show ?thesis
    by (auto simp add: broadcast_HandleMessageInput_def StateBroadcastAwaitText_def
          StateBroadcastAwaitMedia_def StateBroadcastAwaitButtons_def snd_Send)
qed

theorem button_input_accepted_iff_witness:
  "adminStates awaiting_buttons_bot (Chat (text_message 1 ''Site | https://x.test/?a=1|2''))
     = Some StateBroadcastAwaitButtons
   \<and> (\<forall>l\<in>set (Split (MsgText (text_message 1 ''Site | https://x.test/?a=1|2'')) (CHR 0x0A)).
        line_accepted l) = True
   \<and> adminStates (snd (broadcast_HandleMessageInput awaiting_buttons_bot
        (text_message 1 ''Site | https://x.test/?a=1|2''))) 1 = Some StateNone"
proof -
  let ?m = "text_message 1 ''Site | https://x.test/?a=1|2''"
  have h1: "adminStates awaiting_buttons_bot (Chat ?m) = Some StateBroadcastAwaitButtons"
    by (simp add: text_message_def awaiting_buttons_bot_state)
  have h2: "\<forall>l\<in>set (Split (MsgText ?m) (CHR 0x0A)). line_accepted l"
    using two_separators_validate by (simp add: text_message_def validate_lines_None_iff)
  show ?thesis
    using button_input_accepted_iff [OF h1] h1 h2
    by (simp add: text_message_def)
qed

end
